theory Spec2Isabelle
  imports Main "HOL-Library.Sublist"
begin

section \<open>Values shared by both resources\<close>

text \<open>
  A Go \<open>error\<close> is carried by the text its \<open>Error()\<close> method returns: the errors
  this package builds come from \<open>fmt.Errorf\<close> without \<open>%w\<close> and hold nothing else, and
  the errors of the client and of the libraries are only passed on or formatted with
  \<open>%+v\<close>, which prints that text.
\<close>

datatype error = Err (Error: string)

text \<open>
  What \<open>encoding/json\<close> stores in an \<open>interface{}\<close>. A \<open>map[string]interface{}\<close> is an
  association list in which the first binding of a key is the map's entry. The package
  never inspects a number.
\<close>

datatype json =
    JNull
  | JBool bool
  | JNumber int
  | JString string
  | JArray "json list"
  | JObject "(string \<times> json) list"

type_synonym object = "(string \<times> json) list"

text \<open>Indexing a Go map: a missing key reads as the zero value \<open>nil\<close>.\<close>

definition index :: "object \<Rightarrow> string \<Rightarrow> json" where
  "index obj key = (case map_of obj key of None \<Rightarrow> JNull | Some v \<Rightarrow> v)"

text \<open>
  A Go function either returns or panics; \<open>Hits[0]\<close> on an empty slice is the one panic
  this package can raise.
\<close>

datatype 'a exec = Panic string | Done 'a

subsection \<open>The client\<close>

record PerformRequestOptions =
  Method :: string
  Path :: string
  Body :: string
  ContentType :: string

text \<open>
  The requests issued so far, oldest first. The cluster and the client factory are
  outside the package: what they answer may depend on everything sent before.
\<close>

type_synonym history = "PerformRequestOptions list"

text \<open>
  The provider configuration \<open>m\<close> stands for the two things the package does with it:
  \<open>getClient\<close> (\<open>None\<close> when a client handle is returned, the error otherwise) and
  \<open>PerformRequest\<close> on that handle, which yields the response's \<open>Body\<close> or an error.
\<close>

record ProviderConf =
  getClient :: "history \<Rightarrow> error option"
  PerformRequest :: "history \<Rightarrow> PerformRequestOptions \<Rightarrow> error + string"

subsection \<open>Response envelopes\<close>

text \<open>
  Modelled from the spec: the declaration of \<open>querySearchResult\<close> is not among the
  sources. The spec gives the search envelope as \<open>hits.total.value\<close> and, per hit,
  \<open>_id\<close>, \<open>_version\<close> and \<open>_source\<close>; the code reads \<open>Hits.Total.Value\<close>,
  \<open>Hits.Hits[0].ID\<close>, \<open>.Version\<close> and \<open>.Source\<close> (raw JSON text).
\<close>

record hit =
  hit_ID :: string
  hit_Version :: int
  Source :: string

record querySearchResult =
  Hits_Total_Value :: int
  Hits_Hits :: "hit list"

record SaDetectorResponse =
  det_Version :: int
  det_ID :: string
  Detector :: object

record SaDetectorRuleResponse =
  rule_Version :: int
  rule_ID :: string
  Rule :: object

subsection \<open>Library functions and helpers outside the sources\<close>

text \<open>
  \<open>IsSearchNotFound\<close> and \<open>normalizeSaDetector\<close> are defined elsewhere in the
  repository, outside the two resource files; \<open>json.Marshal\<close>, \<open>json.Unmarshal\<close> (one field per target type),
  \<open>structure.NormalizeJsonString\<close> and the error \<open>ResourceData.Set\<close> reports for a value
  of the wrong type are library code. All are parameters, so every theorem holds
  whatever they compute.
\<close>

record externals =
  IsSearchNotFound :: "error \<Rightarrow> bool"
  normalizeSaDetector :: "object \<Rightarrow> object"
  json_Marshal :: "json \<Rightarrow> error + string"
  Unmarshal_querySearchResult :: "string \<Rightarrow> error + querySearchResult"
  Unmarshal_object :: "string \<Rightarrow> error + object"
  Unmarshal_SaDetectorResponse :: "string \<Rightarrow> error + SaDetectorResponse"
  Unmarshal_SaDetectorRuleResponse :: "string \<Rightarrow> error + SaDetectorRuleResponse"
  NormalizeJsonString :: "string \<Rightarrow> error + string"
  Set_type_error :: "string \<Rightarrow> json \<Rightarrow> error"

subsection \<open>The resource's local state\<close>

text \<open>
  \<open>schema.ResourceData\<close>: the ID and the string attributes of the schema (\<open>body\<close>, and
  \<open>category\<close> for a rule). \<open>Get\<close> of an attribute never written is the empty string.
  \<open>Set\<close> on a string attribute stores a string, stores the empty string for \<open>nil\<close>, and
  refuses any other value, leaving the data as it was.
\<close>

record ResourceData =
  Id :: string
  attrs :: "string \<Rightarrow> string option"

definition SetId :: "string \<Rightarrow> ResourceData \<Rightarrow> ResourceData" where
  "SetId v d = d\<lparr>Id := v\<rparr>"

definition Get :: "string \<Rightarrow> ResourceData \<Rightarrow> string" where
  "Get key d = (case attrs d key of None \<Rightarrow> [] | Some v \<Rightarrow> v)"

definition Set :: "externals \<Rightarrow> string \<Rightarrow> json \<Rightarrow> ResourceData \<Rightarrow> error option \<times> ResourceData" where
  "Set X key v d =
     (case v of
        JNull \<Rightarrow> (None, d\<lparr>attrs := (attrs d)(key \<mapsto> [])\<rparr>)
      | JString s \<Rightarrow> (None, d\<lparr>attrs := (attrs d)(key \<mapsto> s)\<rparr>)
      | _ \<Rightarrow> (Some (Set_type_error X key v), d))"

section \<open>Search by ID\<close>

text \<open>The query both lookups marshal: \<open>size\<close> 1 and the one ID under \<open>query.ids.values\<close>.\<close>

definition query :: "string \<Rightarrow> json" where
  "query ID =
     JObject [(''size'', JNumber 1),
              (''query'', JObject [(''ids'', JObject [(''values'', JArray [JString ID])])])]"

definition resourceOpensearchSaDetectorSearch ::
  "externals \<Rightarrow> string \<Rightarrow> ProviderConf \<Rightarrow> history \<Rightarrow> (error + SaDetectorResponse) exec \<times> history" where
  "resourceOpensearchSaDetectorSearch X SaDetectorID m h =
     (case json_Marshal X (query SaDetectorID) of
        Inl err \<Rightarrow> (Done (Inl (Err (''error marshalling query body: '' @ Error err))), h)
      | Inr queryBody \<Rightarrow>
     (case getClient m h of
        Some err \<Rightarrow> (Done (Inl err), h)
      | None \<Rightarrow>
     (let opts = \<lparr>Method = ''POST'',
                  Path = ''/_plugins/_security_analytics/detectors/_search'',
                  Body = queryBody,
                  ContentType = ''application/json''\<rparr>;
          h' = h @ [opts]
      in case PerformRequest m h opts of
        Inl err \<Rightarrow> (Done (Inl err), h')
      | Inr res_Body \<Rightarrow>
     (case Unmarshal_querySearchResult X res_Body of
        Inl err \<Rightarrow> (Done (Inl (Err (''error unmarshalling search result: '' @ Error err))), h')
      | Inr searchResult \<Rightarrow>
        if Hits_Total_Value searchResult = 0
        then (Done (Inl (Err (''no search results found for ID: '' @ SaDetectorID))), h')
        else
     (case Hits_Hits searchResult of
        [] \<Rightarrow> (Panic ''runtime error: index out of range [0] with length 0'', h')
      | hit0 # _ \<Rightarrow>
     (case Unmarshal_object X (Source hit0) of
        Inl err \<Rightarrow> (Done (Inl (Err (''error unmarshalling detector source: '' @ Error err))), h')
      | Inr detector \<Rightarrow>
          (Done (Inr \<lparr>det_Version = hit_Version hit0,
                      det_ID = hit_ID hit0,
                      Detector = normalizeSaDetector X detector\<rparr>), h')))))))"

definition resourceOpensearchSaDetectorRuleGet ::
  "externals \<Rightarrow> string \<Rightarrow> ProviderConf \<Rightarrow> history \<Rightarrow> (error + SaDetectorRuleResponse) exec \<times> history" where
  "resourceOpensearchSaDetectorRuleGet X SaDetectorRuleID m h =
     (case json_Marshal X (query SaDetectorRuleID) of
        Inl err \<Rightarrow> (Done (Inl (Err (''error marshalling query body: '' @ Error err))), h)
      | Inr queryBody \<Rightarrow>
     (case getClient m h of
        Some err \<Rightarrow> (Done (Inl err), h)
      | None \<Rightarrow>
     (let opts = \<lparr>Method = ''POST'',
                  Path = ''/_plugins/_security_analytics/rules/_search?pre_packaged=false'',
                  Body = queryBody,
                  ContentType = ''application/json''\<rparr>;
          h' = h @ [opts]
      in case PerformRequest m h opts of
        Inl err \<Rightarrow> (Done (Inl err), h')
      | Inr res_Body \<Rightarrow>
     (case Unmarshal_querySearchResult X res_Body of
        Inl err \<Rightarrow> (Done (Inl (Err (''error unmarshalling search result: '' @ Error err))), h')
      | Inr searchResult \<Rightarrow>
        if Hits_Total_Value searchResult = 0
        then (Done (Inl (Err (''no search results found for ID: '' @ SaDetectorRuleID))), h')
        else
     (case Hits_Hits searchResult of
        [] \<Rightarrow> (Panic ''runtime error: index out of range [0] with length 0'', h')
      | hit0 # _ \<Rightarrow>
     (case Unmarshal_object X (Source hit0) of
        Inl err \<Rightarrow> (Done (Inl (Err (''error unmarshalling rule source: '' @ Error err))), h')
      | Inr rule \<Rightarrow>
          (Done (Inr \<lparr>rule_Version = hit_Version hit0,
                      rule_ID = hit_ID hit0,
                      Rule = rule\<rparr>), h')))))))"

section \<open>Formatting and URI templates\<close>

text \<open>
  \<open>fmt\<close> prints a byte slice under \<open>%+v\<close> as its bytes in decimal, separated by blanks,
  in square brackets; a \<open>json.RawMessage\<close> is such a slice and has no \<open>String\<close> method.
\<close>

fun decimal :: "nat \<Rightarrow> string" where
  "decimal n =
     (if n < 10 then [''0123456789'' ! n]
      else decimal (n div 10) @ [''0123456789'' ! (n mod 10)])"

declare decimal.simps [simp del]

fun join_blank :: "string list \<Rightarrow> string" where
  "join_blank [] = []"
| "join_blank [x] = x"
| "join_blank (x # y # zs) = x @ '' '' @ join_blank (y # zs)"

definition fmt_bytes :: "string \<Rightarrow> string" where
  "fmt_bytes body = ''['' @ join_blank (map (\<lambda>b. decimal (of_char b)) body) @ '']''"

text \<open>
  \<open>uritemplates.Expand\<close> (RFC 6570), as far as the templates of this package use it:
  literal text and simple expressions \<open>{name}\<close>. The value of a name is written with
  every byte outside \<open>A-Z a-z 0-9 - . _ ~\<close> percent-encoded; a name with no value
  expands to nothing. Operators, prefixes and lists do not occur in the package and are
  refused here as invalid names.
\<close>

definition unreserved :: "char \<Rightarrow> bool" where
  "unreserved c =
     (let n = (of_char c :: nat)
      in (65 \<le> n \<and> n \<le> 90) \<or> (97 \<le> n \<and> n \<le> 122) \<or> (48 \<le> n \<and> n \<le> 57)
         \<or> c = CHR ''-'' \<or> c = CHR ''.'' \<or> c = CHR ''_'' \<or> c = CHR ''~'')"

definition hex :: string where
  "hex = ''0123456789ABCDEF''"

definition pctEncode :: "char \<Rightarrow> string" where
  "pctEncode b = [CHR ''%'', hex ! (of_char b div 16), hex ! (of_char b mod 16)]"

definition escape :: "string \<Rightarrow> string" where
  "escape s = concat (map (\<lambda>b. if unreserved b then [b] else pctEncode b) s)"

definition validname :: "string \<Rightarrow> bool" where
  "validname name =
     (name \<noteq> [] \<and>
      list_all (\<lambda>c. let n = (of_char c :: nat)
                    in (65 \<le> n \<and> n \<le> 90) \<or> (97 \<le> n \<and> n \<le> 122) \<or> (48 \<le> n \<and> n \<le> 57)
                       \<or> c = CHR ''_'' \<or> c = CHR ''.'') name)"

text \<open>
  One pass over the template: \<open>None\<close> while copying literal text, \<open>Some name\<close> while
  reading the name between braces; \<open>buf\<close> is the output so far.
\<close>

fun expand :: "(string \<times> string) list \<Rightarrow> string option \<Rightarrow> string \<Rightarrow> string \<Rightarrow> error + string" where
  "expand values None buf [] = Inr buf"
| "expand values None buf (c # cs) =
     (if c = CHR 0x7B then expand values (Some []) buf cs
      else if c = CHR 0x7D then Inl (Err ''unexpected }'')
      else expand values None (buf @ [c]) cs)"
| "expand values (Some name) buf [] = Inl (Err ''malformed template'')"
| "expand values (Some name) buf (c # cs) =
     (if c = CHR 0x7D then
        (if validname name
         then expand values None
                (buf @ (case map_of values name of None \<Rightarrow> [] | Some v \<Rightarrow> escape v)) cs
         else Inl (Err (''not a valid name: '' @ name)))
      else if c = CHR 0x7B then Inl (Err ''malformed template'')
      else expand values (Some (name @ [c])) buf cs)"

definition uritemplates_Expand :: "string \<Rightarrow> (string \<times> string) list \<Rightarrow> error + string" where
  "uritemplates_Expand path values = expand values None [] path"

section \<open>The detector resource\<close>

definition resourceOpensearchPostSaDetector ::
  "externals \<Rightarrow> ResourceData \<Rightarrow> ProviderConf \<Rightarrow> history \<Rightarrow> (error + SaDetectorResponse) \<times> history" where
  "resourceOpensearchPostSaDetector X d m h =
     (let SaDetectorJSON = Get ''body'' d;
          path = ''/_plugins/_security_analytics/detectors''
      in case getClient m h of
        Some err \<Rightarrow> (Inl err, h)
      | None \<Rightarrow>
     (let opts = \<lparr>Method = ''POST'', Path = path, Body = SaDetectorJSON, ContentType = []\<rparr>;
          h' = h @ [opts]
      in case PerformRequest m h opts of
        Inl err \<Rightarrow> (Inl err, h')
      | Inr body \<Rightarrow>
     (case Unmarshal_SaDetectorResponse X body of
        Inl err \<Rightarrow>
          (Inl (Err (''error unmarshalling detector body: '' @ Error err @ '': '' @ fmt_bytes body)), h')
      | Inr response \<Rightarrow>
          (Inr (response\<lparr>Detector := normalizeSaDetector X (Detector response)\<rparr>), h'))))"

definition resourceOpensearchPutSaDetector ::
  "externals \<Rightarrow> ResourceData \<Rightarrow> ProviderConf \<Rightarrow> history \<Rightarrow> (error + SaDetectorResponse) \<times> history" where
  "resourceOpensearchPutSaDetector X d m h =
     (let SaDetectorJSON = Get ''body'' d
      in case uritemplates_Expand ''/_plugins/_security_analytics/detectors/{id}'' [(''id'', Id d)] of
        Inl err \<Rightarrow> (Inl (Err (''error building URL path for detector: '' @ Error err)), h)
      | Inr path \<Rightarrow>
     (case getClient m h of
        Some err \<Rightarrow> (Inl err, h)
      | None \<Rightarrow>
     (let opts = \<lparr>Method = ''PUT'', Path = path, Body = SaDetectorJSON, ContentType = []\<rparr>;
          h' = h @ [opts]
      in case PerformRequest m h opts of
        Inl err \<Rightarrow> (Inl err, h')
      | Inr body \<Rightarrow>
     (case Unmarshal_SaDetectorResponse X body of
        Inl err \<Rightarrow>
          (Inl (Err (''error unmarshalling detector body: '' @ Error err @ '': '' @ fmt_bytes body)), h')
      | Inr response \<Rightarrow> (Inr response, h')))))"

definition resourceOpensearchSaDetectorRead ::
  "externals \<Rightarrow> ResourceData \<Rightarrow> ProviderConf \<Rightarrow> history \<Rightarrow> (error option \<times> ResourceData) exec \<times> history" where
  "resourceOpensearchSaDetectorRead X d m h =
     (case resourceOpensearchSaDetectorSearch X (Id d) m h of
        (Panic p, h') \<Rightarrow> (Panic p, h')
      | (Done (Inl err), h') \<Rightarrow>
          if IsSearchNotFound X err then (Done (None, SetId [] d), h')
          else (Done (Some err, d), h')
      | (Done (Inr res), h') \<Rightarrow>
     (let d' = SetId (det_ID res) d
      in case json_Marshal X (JObject (Detector res)) of
        Inl err \<Rightarrow> (Done (Some err, d'), h')
      | Inr SaDetectorJSON \<Rightarrow>
     (case NormalizeJsonString X SaDetectorJSON of
        Inl err \<Rightarrow> (Done (Some err, d'), h')
      | Inr SaDetectorJsonNormalized \<Rightarrow>
          (Done (Set X ''body'' (JString SaDetectorJsonNormalized) d'), h'))))"

definition resourceOpensearchSaDetectorCreate ::
  "externals \<Rightarrow> ResourceData \<Rightarrow> ProviderConf \<Rightarrow> history \<Rightarrow> (error option \<times> ResourceData) exec \<times> history" where
  "resourceOpensearchSaDetectorCreate X d m h =
     (case resourceOpensearchPostSaDetector X d m h of
        (Inl err, h') \<Rightarrow> (Done (Some err, d), h')
      | (Inr res, h') \<Rightarrow> resourceOpensearchSaDetectorRead X (SetId (det_ID res) d) m h')"

definition resourceOpensearchSaDetectorUpdate ::
  "externals \<Rightarrow> ResourceData \<Rightarrow> ProviderConf \<Rightarrow> history \<Rightarrow> (error option \<times> ResourceData) exec \<times> history" where
  "resourceOpensearchSaDetectorUpdate X d m h =
     (case resourceOpensearchPutSaDetector X d m h of
        (Inl err, h') \<Rightarrow> (Done (Some err, d), h')
      | (Inr _, h') \<Rightarrow> resourceOpensearchSaDetectorRead X d m h')"

definition resourceOpensearchSaDetectorDelete ::
  "ResourceData \<Rightarrow> ProviderConf \<Rightarrow> history \<Rightarrow> error option \<times> history" where
  "resourceOpensearchSaDetectorDelete d m h =
     (case uritemplates_Expand ''/_plugins/_security_analytics/detectors/{id}'' [(''id'', Id d)] of
        Inl err \<Rightarrow> (Some (Err (''error building URL path for detector: '' @ Error err)), h)
      | Inr path \<Rightarrow>
     (case getClient m h of
        Some err \<Rightarrow> (Some err, h)
      | None \<Rightarrow>
     (let opts = \<lparr>Method = ''DELETE'', Path = path, Body = [], ContentType = []\<rparr>
      in case PerformRequest m h opts of
        Inl err \<Rightarrow> (Some err, h @ [opts])
      | Inr _ \<Rightarrow> (None, h @ [opts]))))"

section \<open>The detector rule resource\<close>

definition resourceOpensearchPostSaDetectorRule ::
  "externals \<Rightarrow> ResourceData \<Rightarrow> ProviderConf \<Rightarrow> history \<Rightarrow> (error + SaDetectorRuleResponse) \<times> history" where
  "resourceOpensearchPostSaDetectorRule X d m h =
     (let SaDetectorRuleBody = Get ''body'' d;
          Category = Get ''category'' d
      in case uritemplates_Expand ''/_plugins/_security_analytics/rules?category={category}''
                [(''category'', Category)] of
        Inl err \<Rightarrow> (Inl (Err (''error building URL path for detector rule: '' @ Error err)), h)
      | Inr path \<Rightarrow>
     (case getClient m h of
        Some err \<Rightarrow> (Inl err, h)
      | None \<Rightarrow>
     (let opts = \<lparr>Method = ''POST'', Path = path, Body = SaDetectorRuleBody,
                  ContentType = ''application/json''\<rparr>;
          h' = h @ [opts]
      in case PerformRequest m h opts of
        Inl err \<Rightarrow> (Inl err, h')
      | Inr body \<Rightarrow>
     (case Unmarshal_SaDetectorRuleResponse X body of
        Inl err \<Rightarrow>
          (Inl (Err (''error unmarshalling detector rule body: '' @ Error err @ '': '' @ fmt_bytes body)), h')
      | Inr response \<Rightarrow> (Inr response, h')))))"

definition resourceOpensearchPutSaDetectorRule ::
  "externals \<Rightarrow> ResourceData \<Rightarrow> ProviderConf \<Rightarrow> history \<Rightarrow> (error + SaDetectorRuleResponse) \<times> history" where
  "resourceOpensearchPutSaDetectorRule X d m h =
     (let SaDetectorRuleJSON = Get ''body'' d;
          Category = Get ''category'' d
      in case uritemplates_Expand
                ''/_plugins/_security_analytics/rules/{id}?category={category}&forced=true''
                [(''id'', Id d), (''category'', Category)] of
        Inl err \<Rightarrow> (Inl (Err (''error building URL path for detector rule: '' @ Error err)), h)
      | Inr path \<Rightarrow>
     (case getClient m h of
        Some err \<Rightarrow> (Inl err, h)
      | None \<Rightarrow>
     (let opts = \<lparr>Method = ''PUT'', Path = path, Body = SaDetectorRuleJSON,
                  ContentType = ''application/json''\<rparr>;
          h' = h @ [opts]
      in case PerformRequest m h opts of
        Inl err \<Rightarrow> (Inl err, h')
      | Inr body \<Rightarrow>
     (case Unmarshal_SaDetectorRuleResponse X body of
        Inl err \<Rightarrow>
          (Inl (Err (''error unmarshalling detector rule body: '' @ Error err @ '': '' @ fmt_bytes body)), h')
      | Inr response \<Rightarrow> (Inr response, h')))))"

definition resourceOpensearchSaDetectorRuleRead ::
  "externals \<Rightarrow> ResourceData \<Rightarrow> ProviderConf \<Rightarrow> history \<Rightarrow> (error option \<times> ResourceData) exec \<times> history" where
  "resourceOpensearchSaDetectorRuleRead X d m h =
     (case resourceOpensearchSaDetectorRuleGet X (Id d) m h of
        (Panic p, h') \<Rightarrow> (Panic p, h')
      | (Done (Inl err), h') \<Rightarrow>
          if IsSearchNotFound X err then (Done (None, SetId [] d), h')
          else (Done (Some err, d), h')
      | (Done (Inr res), h') \<Rightarrow>
          (Done (Set X ''body'' (index (Rule res) ''rule'') (SetId (rule_ID res) d)), h'))"

definition resourceOpensearchSaDetectorRuleCreate ::
  "externals \<Rightarrow> ResourceData \<Rightarrow> ProviderConf \<Rightarrow> history \<Rightarrow> (error option \<times> ResourceData) exec \<times> history" where
  "resourceOpensearchSaDetectorRuleCreate X d m h =
     (case resourceOpensearchPostSaDetectorRule X d m h of
        (Inl err, h') \<Rightarrow> (Done (Some err, d), h')
      | (Inr res, h') \<Rightarrow> resourceOpensearchSaDetectorRuleRead X (SetId (rule_ID res) d) m h')"

definition resourceOpensearchSaDetectorRuleUpdate ::
  "externals \<Rightarrow> ResourceData \<Rightarrow> ProviderConf \<Rightarrow> history \<Rightarrow> (error option \<times> ResourceData) exec \<times> history" where
  "resourceOpensearchSaDetectorRuleUpdate X d m h =
     (case resourceOpensearchPutSaDetectorRule X d m h of
        (Inl err, h') \<Rightarrow> (Done (Some err, d), h')
      | (Inr _, h') \<Rightarrow> resourceOpensearchSaDetectorRuleRead X d m h')"

definition resourceOpensearchSaDetectorRuleDelete ::
  "ResourceData \<Rightarrow> ProviderConf \<Rightarrow> history \<Rightarrow> error option \<times> history" where
  "resourceOpensearchSaDetectorRuleDelete d m h =
     (case uritemplates_Expand ''/_plugins/_security_analytics/rules/{id}?forced=true''
             [(''id'', Id d)] of
        Inl err \<Rightarrow> (Some (Err (''error building URL path for detector: '' @ Error err)), h)
      | Inr path \<Rightarrow>
     (case getClient m h of
        Some err \<Rightarrow> (Some err, h)
      | None \<Rightarrow>
     (let opts = \<lparr>Method = ''DELETE'', Path = path, Body = [], ContentType = []\<rparr>
      in case PerformRequest m h opts of
        Inl err \<Rightarrow> (Some err, h @ [opts])
      | Inr _ \<Rightarrow> (None, h @ [opts]))))"

section \<open>The NotFound predicate\<close>

text \<open>
  Modelled from the spec: \<open>IsSearchNotFound\<close> is not among the sources. The spec has
  NotFound told apart from other errors "by string/shape inspection", by "heuristic
  matching" and not by a tagged variant; the error the lookups build for zero hits
  carries nothing but its message, whose fixed part is \<open>no search results found for ID: \<close>.
  The predicate holds of an error whose message begins with that text.
\<close>

definition IsSearchNotFound_spec :: "error \<Rightarrow> bool" where
  "IsSearchNotFound_spec err = prefix ''no search results found for ID: '' (Error err)"

section \<open>Scenarios\<close>

text \<open>
  A cluster that answers the n-th request with the n-th entry of a script, and a
  provider whose client factory fails.
\<close>

definition cluster :: "(error + string) list \<Rightarrow> ProviderConf" where
  "cluster answers =
     \<lparr>getClient = (\<lambda>h. None),
      PerformRequest = (\<lambda>h opts. if length h < length answers then answers ! length h
                                   else Inl (Err ''EOF''))\<rparr>"

definition no_client :: "error \<Rightarrow> ProviderConf" where
  "no_client e = \<lparr>getClient = (\<lambda>h. Some e), PerformRequest = (\<lambda>h opts. Inl e)\<rparr>"

text \<open>Response bodies: the spec's scenarios, a rule hit, and two ill-formed answers.\<close>

definition zero_hits :: string where
  \<open>zero_hits = ''{"hits":{"total":{"value":0},"hits":[]}}''\<close>

definition detector_hit :: string where
  \<open>detector_hit =
     ''{"hits":{"total":{"value":1},"hits":[{"_id":"abc123","_version":1,"_source":{"type":"sigma","name":"t1"}}]}}''\<close>

definition nested_hit :: string where
  \<open>nested_hit =
     ''{"hits":{"total":{"value":1},"hits":[{"_id":"abc123","_version":1,"_source":{"name":"t1","detector":{"name":"inner"}}}]}}''\<close>

definition rule_hit :: string where
  \<open>rule_hit =
     ''{"hits":{"total":{"value":1},"hits":[{"_id":"r1","_version":1,"_source":{"category":"cloudtrail","rule":"title: t"}}]}}''\<close>

definition total_without_hits :: string where
  \<open>total_without_hits = ''{"hits":{"total":{"value":1},"hits":[]}}''\<close>

definition truncated :: string where
  \<open>truncated = ''{"hits":''\<close>

definition detector_created :: string where
  \<open>detector_created = ''{"_id":"abc123","_version":1,"detector":{"type":"sigma","name":"t1"}}''\<close>

definition rule_created :: string where
  \<open>rule_created = ''{"_id":"r1","_version":1}''\<close>

text \<open>
  A stand-in for the libraries that knows these bodies and answers \<open>unexpected end of
  JSON input\<close> to any other text; the NotFound predicate is the one modelled above.
\<close>

definition lib :: externals where
  \<open>lib =
     \<lparr>IsSearchNotFound = IsSearchNotFound_spec,
      normalizeSaDetector = (\<lambda>obj. obj),
      json_Marshal = (\<lambda>j.
        if j = query ''xyz'' then Inr ''{"query":{"ids":{"values":["xyz"]}},"size":1}''
        else if j = query ''abc123'' then Inr ''{"query":{"ids":{"values":["abc123"]}},"size":1}''
        else if j = query ''r1'' then Inr ''{"query":{"ids":{"values":["r1"]}},"size":1}''
        else if j = JObject [(''type'', JString ''sigma''), (''name'', JString ''t1'')]
          then Inr ''{"name":"t1","type":"sigma"}''
        else Inr ''{}''),
      Unmarshal_querySearchResult = (\<lambda>s.
        if s = zero_hits then Inr \<lparr>Hits_Total_Value = 0, Hits_Hits = []\<rparr>
        else if s = total_without_hits then Inr \<lparr>Hits_Total_Value = 1, Hits_Hits = []\<rparr>
        else if s = detector_hit then
          Inr \<lparr>Hits_Total_Value = 1,
               Hits_Hits = [\<lparr>hit_ID = ''abc123'', hit_Version = 1,
                             Source = ''{"type":"sigma","name":"t1"}''\<rparr>]\<rparr>
        else if s = nested_hit then
          Inr \<lparr>Hits_Total_Value = 1,
               Hits_Hits = [\<lparr>hit_ID = ''abc123'', hit_Version = 1,
                             Source = ''{"name":"t1","detector":{"name":"inner"}}''\<rparr>]\<rparr>
        else if s = rule_hit then
          Inr \<lparr>Hits_Total_Value = 1,
               Hits_Hits = [\<lparr>hit_ID = ''r1'', hit_Version = 1,
                             Source = ''{"category":"cloudtrail","rule":"title: t"}''\<rparr>]\<rparr>
        else Inl (Err ''unexpected end of JSON input'')),
      Unmarshal_object = (\<lambda>s.
        if s = ''{"type":"sigma","name":"t1"}''
          then Inr [(''type'', JString ''sigma''), (''name'', JString ''t1'')]
        else if s = ''{"name":"t1","detector":{"name":"inner"}}''
          then Inr [(''name'', JString ''t1''), (''detector'', JObject [(''name'', JString ''inner'')])]
        else if s = ''{"category":"cloudtrail","rule":"title: t"}''
          then Inr [(''category'', JString ''cloudtrail''), (''rule'', JString ''title: t'')]
        else Inl (Err ''unexpected end of JSON input'')),
      Unmarshal_SaDetectorResponse = (\<lambda>s.
        if s = detector_created
          then Inr \<lparr>det_Version = 1, det_ID = ''abc123'',
                    Detector = [(''type'', JString ''sigma''), (''name'', JString ''t1'')]\<rparr>
        else Inl (Err ''unexpected end of JSON input'')),
      Unmarshal_SaDetectorRuleResponse = (\<lambda>s.
        if s = rule_created then Inr \<lparr>rule_Version = 1, rule_ID = ''r1'', Rule = []\<rparr>
        else Inl (Err ''unexpected end of JSON input'')),
      NormalizeJsonString = (\<lambda>s. Inr s),
      Set_type_error = (\<lambda>key v. Err (key @ '': expected type string''))\<rparr>\<close>

text \<open>Local states: nothing created yet, and resources known under an ID.\<close>

definition new_detector :: ResourceData where
  \<open>new_detector = \<lparr>Id = [], attrs = [''body'' \<mapsto> ''{"type":"sigma","name":"t1"}'']\<rparr>\<close>

definition known_detector :: ResourceData where
  \<open>known_detector = \<lparr>Id = ''abc123'', attrs = [''body'' \<mapsto> ''{"type":"sigma","name":"t1"}'']\<rparr>\<close>

definition new_rule :: ResourceData where
  \<open>new_rule = \<lparr>Id = [], attrs = [''body'' \<mapsto> ''title: t'', ''category'' \<mapsto> ''cloudtrail'']\<rparr>\<close>

definition known_rule :: ResourceData where
  \<open>known_rule = \<lparr>Id = ''r1'', attrs = [''body'' \<mapsto> ''title: old'', ''category'' \<mapsto> ''cloudtrail'']\<rparr>\<close>

section \<open>Properties\<close>

lemmas lookup_defs =
  resourceOpensearchSaDetectorSearch_def resourceOpensearchSaDetectorRuleGet_def

lemmas scenario_defs =
  cluster_def no_client_def lib_def query_def zero_hits_def detector_hit_def nested_hit_def
  rule_hit_def total_without_hits_def truncated_def detector_created_def rule_created_def
  new_detector_def known_detector_def new_rule_def known_rule_def IsSearchNotFound_spec_def

subsection \<open>Read and the lookup's errors\<close>

text \<open>
  C1. For the detector and for the rule: when the search-by-id lookup of Read fails with
  an error of which the NotFound predicate holds, Read sets the local ID to the empty
  string, touches nothing else and returns no error; when it fails with any other
  error, Read returns that very error and leaves the local state as it was.
\<close>

theorem Read_lookup_error:
  "(resourceOpensearchSaDetectorSearch X (Id d) m h = (Done (Inl err), h') \<longrightarrow>
      resourceOpensearchSaDetectorRead X d m h =
        (if IsSearchNotFound X err then (Done (None, d\<lparr>Id := []\<rparr>), h')
         else (Done (Some err, d), h'))) \<and>
   (resourceOpensearchSaDetectorRuleGet X (Id d) m h = (Done (Inl err), h') \<longrightarrow>
      resourceOpensearchSaDetectorRuleRead X d m h =
        (if IsSearchNotFound X err then (Done (None, d\<lparr>Id := []\<rparr>), h')
         else (Done (Some err, d), h')))"
  by (simp add: resourceOpensearchSaDetectorRead_def resourceOpensearchSaDetectorRuleRead_def
      SetId_def)

lemma detector_search_zero_hits:
  "resourceOpensearchSaDetectorSearch lib ''abc123'' (cluster [Inr zero_hits]) [] =
     (Done (Inl (Err ''no search results found for ID: abc123'')),
      [\<lparr>Method = ''POST'', Path = ''/_plugins/_security_analytics/detectors/_search'',
        Body = ''{\"query\":{\"ids\":{\"values\":[\"abc123\"]}},\"size\":1}'',
        ContentType = ''application/json''\<rparr>])"
  by (simp add: lookup_defs scenario_defs)

lemma rule_search_no_client:
  "resourceOpensearchSaDetectorRuleGet lib ''r1'' (no_client (Err ''connection refused'')) [] =
     (Done (Inl (Err ''connection refused'')), [])"
  by (simp add: lookup_defs scenario_defs)

theorem Read_lookup_error_witness:
  "resourceOpensearchSaDetectorRead lib known_detector (cluster [Inr zero_hits]) [] =
     (Done (None, known_detector\<lparr>Id := []\<rparr>),
      [\<lparr>Method = ''POST'', Path = ''/_plugins/_security_analytics/detectors/_search'',
        Body = ''{\"query\":{\"ids\":{\"values\":[\"abc123\"]}},\"size\":1}'',
        ContentType = ''application/json''\<rparr>]) \<and>
   resourceOpensearchSaDetectorRuleRead lib known_rule (no_client (Err ''connection refused'')) [] =
     (Done (Some (Err ''connection refused''), known_rule), [])"
proof -
  have a: "Id known_detector = ''abc123''" and b: "Id known_rule = ''r1''"
    by (simp_all add: known_detector_def known_rule_def)
  have nf: "IsSearchNotFound lib (Err ''no search results found for ID: abc123'')"
    by (simp add: lib_def IsSearchNotFound_spec_def)
  have other: "\<not> IsSearchNotFound lib (Err ''connection refused'')"
    by (simp add: lib_def IsSearchNotFound_spec_def)
  from Read_lookup_error [where X = lib and d = known_detector and m = "cluster [Inr zero_hits]"
      and h = "[]" and err = "Err ''no search results found for ID: abc123''"]
    detector_search_zero_hits a nf
  have 1: "resourceOpensearchSaDetectorRead lib known_detector (cluster [Inr zero_hits]) [] =
     (Done (None, known_detector\<lparr>Id := []\<rparr>),
      [\<lparr>Method = ''POST'', Path = ''/_plugins/_security_analytics/detectors/_search'',
        Body = ''{\"query\":{\"ids\":{\"values\":[\"abc123\"]}},\"size\":1}'',
        ContentType = ''application/json''\<rparr>])"
    by simp
  from Read_lookup_error [where X = lib and d = known_rule
      and m = "no_client (Err ''connection refused'')" and h = "[]"
      and err = "Err ''connection refused''" and h' = "[]"]
    rule_search_no_client b other
  have 2: "resourceOpensearchSaDetectorRuleRead lib known_rule (no_client (Err ''connection refused'')) [] =
     (Done (Some (Err ''connection refused''), known_rule), [])"
    by simp
  from 1 2 show ?thesis by simp
qed

subsection \<open>What a lookup sends and how it goes on\<close>

lemma detector_search_sent:
  "snd (resourceOpensearchSaDetectorSearch X ID m h) =
     (case json_Marshal X (query ID) of
        Inl _ \<Rightarrow> h
      | Inr queryBody \<Rightarrow>
     (case getClient m h of
        Some _ \<Rightarrow> h
      | None \<Rightarrow>
          h @ [\<lparr>Method = ''POST'', Path = ''/_plugins/_security_analytics/detectors/_search'',
                 Body = queryBody, ContentType = ''application/json''\<rparr>]))"
  by (simp add: resourceOpensearchSaDetectorSearch_def Let_def
      split: sum.split option.split list.split)

lemma rule_search_sent:
  "snd (resourceOpensearchSaDetectorRuleGet X ID m h) =
     (case json_Marshal X (query ID) of
        Inl _ \<Rightarrow> h
      | Inr queryBody \<Rightarrow>
     (case getClient m h of
        Some _ \<Rightarrow> h
      | None \<Rightarrow>
          h @ [\<lparr>Method = ''POST'',
                 Path = ''/_plugins/_security_analytics/rules/_search?pre_packaged=false'',
                 Body = queryBody, ContentType = ''application/json''\<rparr>]))"
  by (simp add: resourceOpensearchSaDetectorRuleGet_def Let_def
      split: sum.split option.split list.split)

lemma detector_search_run:
  assumes "snd (resourceOpensearchSaDetectorSearch X ID m h) = h @ [opts]"
  shows "fst (resourceOpensearchSaDetectorSearch X ID m h) =
     (case PerformRequest m h opts of
        Inl err \<Rightarrow> Done (Inl err)
      | Inr body \<Rightarrow>
     (case Unmarshal_querySearchResult X body of
        Inl err \<Rightarrow> Done (Inl (Err (''error unmarshalling search result: '' @ Error err)))
      | Inr sr \<Rightarrow>
        if Hits_Total_Value sr = 0
        then Done (Inl (Err (''no search results found for ID: '' @ ID)))
        else
     (case Hits_Hits sr of
        [] \<Rightarrow> Panic ''runtime error: index out of range [0] with length 0''
      | hit0 # _ \<Rightarrow>
     (case Unmarshal_object X (Source hit0) of
        Inl err \<Rightarrow> Done (Inl (Err (''error unmarshalling detector source: '' @ Error err)))
      | Inr obj \<Rightarrow>
          Done (Inr \<lparr>det_Version = hit_Version hit0, det_ID = hit_ID hit0,
                     Detector = normalizeSaDetector X obj\<rparr>)))))"
proof -
  from assms obtain q where q: "json_Marshal X (query ID) = Inr q" "getClient m h = None"
    and opts: "opts = \<lparr>Method = ''POST'', Path = ''/_plugins/_security_analytics/detectors/_search'',
                        Body = q, ContentType = ''application/json''\<rparr>"
    by (auto simp: detector_search_sent split: sum.splits option.splits)
  show ?thesis
    by (simp add: resourceOpensearchSaDetectorSearch_def Let_def q opts
        split: sum.split list.split)
qed

lemma rule_search_run:
  assumes "snd (resourceOpensearchSaDetectorRuleGet X ID m h) = h @ [opts]"
  shows "fst (resourceOpensearchSaDetectorRuleGet X ID m h) =
     (case PerformRequest m h opts of
        Inl err \<Rightarrow> Done (Inl err)
      | Inr body \<Rightarrow>
     (case Unmarshal_querySearchResult X body of
        Inl err \<Rightarrow> Done (Inl (Err (''error unmarshalling search result: '' @ Error err)))
      | Inr sr \<Rightarrow>
        if Hits_Total_Value sr = 0
        then Done (Inl (Err (''no search results found for ID: '' @ ID)))
        else
     (case Hits_Hits sr of
        [] \<Rightarrow> Panic ''runtime error: index out of range [0] with length 0''
      | hit0 # _ \<Rightarrow>
     (case Unmarshal_object X (Source hit0) of
        Inl err \<Rightarrow> Done (Inl (Err (''error unmarshalling rule source: '' @ Error err)))
      | Inr obj \<Rightarrow>
          Done (Inr \<lparr>rule_Version = hit_Version hit0, rule_ID = hit_ID hit0, Rule = obj\<rparr>)))))"
proof -
  from assms obtain q where q: "json_Marshal X (query ID) = Inr q" "getClient m h = None"
    and opts: "opts = \<lparr>Method = ''POST'',
                        Path = ''/_plugins/_security_analytics/rules/_search?pre_packaged=false'',
                        Body = q, ContentType = ''application/json''\<rparr>"
    by (auto simp: rule_search_sent split: sum.splits option.splits)
  show ?thesis
    by (simp add: resourceOpensearchSaDetectorRuleGet_def Let_def q opts
        split: sum.split list.split)
qed

text \<open>The stand-in library marshals the queries of the scenarios.\<close>

lemma lib_Marshal:
  \<open>json_Marshal lib (query ''xyz'') = Inr ''{"query":{"ids":{"values":["xyz"]}},"size":1}''\<close>
  \<open>json_Marshal lib (query ''abc123'') = Inr ''{"query":{"ids":{"values":["abc123"]}},"size":1}''\<close>
  \<open>json_Marshal lib (query ''r1'') = Inr ''{"query":{"ids":{"values":["r1"]}},"size":1}''\<close>
  by (simp_all add: lib_def query_def)

lemma cluster_client: "getClient (cluster answers) h = None"
  by (simp add: cluster_def)

lemma cluster_first: "PerformRequest (cluster (a # answers)) [] opts = a"
  by (simp add: cluster_def)

lemma cluster_second: "PerformRequest (cluster (a # b # answers)) [r] opts = b"
  by (simp add: cluster_def)

text \<open>
  C3. For every ID, once the query is marshalled and a client is at hand, each lookup
  sends exactly one request: a POST with content type \<open>application/json\<close> whose body is
  the marshalled JSON value \<open>{"size":1,"query":{"ids":{"values":[ID]}}}\<close>, to
  \<open>/_plugins/_security_analytics/detectors/_search\<close> for detectors and to
  \<open>/_plugins/_security_analytics/rules/_search?pre_packaged=false\<close> for rules.
\<close>

theorem lookup_request:
  assumes "json_Marshal X
             (JObject [(''size'', JNumber 1),
                       (''query'', JObject [(''ids'', JObject [(''values'', JArray [JString ID])])])])
           = Inr queryBody"
    and "getClient m h = None"
  shows "snd (resourceOpensearchSaDetectorSearch X ID m h) =
           h @ [\<lparr>Method = ''POST'', Path = ''/_plugins/_security_analytics/detectors/_search'',
                  Body = queryBody, ContentType = ''application/json''\<rparr>] \<and>
         snd (resourceOpensearchSaDetectorRuleGet X ID m h) =
           h @ [\<lparr>Method = ''POST'',
                  Path = ''/_plugins/_security_analytics/rules/_search?pre_packaged=false'',
                  Body = queryBody, ContentType = ''application/json''\<rparr>]"
  using assms by (simp add: detector_search_sent rule_search_sent query_def)

theorem lookup_request_witness:
  \<open>snd (resourceOpensearchSaDetectorSearch lib ''xyz'' (cluster [Inr zero_hits]) []) =
     [\<lparr>Method = ''POST'', Path = ''/_plugins/_security_analytics/detectors/_search'',
       Body = ''{"query":{"ids":{"values":["xyz"]}},"size":1}'',
       ContentType = ''application/json''\<rparr>] \<and>
   snd (resourceOpensearchSaDetectorRuleGet lib ''xyz'' (cluster [Inr zero_hits]) []) =
     [\<lparr>Method = ''POST'',
       Path = ''/_plugins/_security_analytics/rules/_search?pre_packaged=false'',
       Body = ''{"query":{"ids":{"values":["xyz"]}},"size":1}'',
       ContentType = ''application/json''\<rparr>]\<close>
proof -
  have q: \<open>json_Marshal lib
             (JObject [(''size'', JNumber 1),
                       (''query'', JObject [(''ids'', JObject [(''values'', JArray [JString ''xyz''])])])])
           = Inr ''{"query":{"ids":{"values":["xyz"]}},"size":1}''\<close>
    using lib_Marshal(1) by (simp add: query_def)
  from lookup_request [OF q cluster_client, of "[Inr zero_hits]" "[]"]
  show ?thesis by simp
qed

text \<open>
  C9. In both lookups, once the search response is decoded, reading \<open>Hits.Hits[0]\<close> is
  guarded by nothing but \<open>Hits.Total.Value\<close> being non-zero: the lookup panics with an
  index out of range exactly when the total is non-zero and the hits array is empty,
  and never when a response with a non-zero total carries at least one hit.
\<close>

theorem Hits_index_in_bounds:
  "(snd (resourceOpensearchSaDetectorSearch X ID m h) = h @ [opts] \<and>
    PerformRequest m h opts = Inr body \<and> Unmarshal_querySearchResult X body = Inr sr \<longrightarrow>
      ((\<exists>p. fst (resourceOpensearchSaDetectorSearch X ID m h) = Panic p) \<longleftrightarrow>
       Hits_Total_Value sr \<noteq> 0 \<and> Hits_Hits sr = [])) \<and>
   (snd (resourceOpensearchSaDetectorRuleGet X ID m h) = h @ [opts] \<and>
    PerformRequest m h opts = Inr body \<and> Unmarshal_querySearchResult X body = Inr sr \<longrightarrow>
      ((\<exists>p. fst (resourceOpensearchSaDetectorRuleGet X ID m h) = Panic p) \<longleftrightarrow>
       Hits_Total_Value sr \<noteq> 0 \<and> Hits_Hits sr = []))"
  by (auto simp: detector_search_run rule_search_run split: list.splits sum.splits)

lemma detector_sent_abc123:
  \<open>snd (resourceOpensearchSaDetectorSearch lib ''abc123'' (cluster answers) []) =
     [] @ [\<lparr>Method = ''POST'', Path = ''/_plugins/_security_analytics/detectors/_search'',
             Body = ''{"query":{"ids":{"values":["abc123"]}},"size":1}'',
             ContentType = ''application/json''\<rparr>]\<close>
  by (simp add: detector_search_sent lib_Marshal cluster_client)

lemma rule_sent_r1:
  \<open>snd (resourceOpensearchSaDetectorRuleGet lib ''r1'' (cluster answers) []) =
     [] @ [\<lparr>Method = ''POST'',
             Path = ''/_plugins/_security_analytics/rules/_search?pre_packaged=false'',
             Body = ''{"query":{"ids":{"values":["r1"]}},"size":1}'',
             ContentType = ''application/json''\<rparr>]\<close>
  by (simp add: rule_search_sent lib_Marshal cluster_client)

lemma lib_envelopes:
  "Unmarshal_querySearchResult lib total_without_hits = Inr \<lparr>Hits_Total_Value = 1, Hits_Hits = []\<rparr>"
  "Unmarshal_querySearchResult lib zero_hits = Inr \<lparr>Hits_Total_Value = 0, Hits_Hits = []\<rparr>"
  "Unmarshal_querySearchResult lib truncated = Inl (Err ''unexpected end of JSON input'')"
  by (simp_all add: lib_def total_without_hits_def zero_hits_def truncated_def detector_hit_def
      nested_hit_def rule_hit_def)

theorem Hits_index_in_bounds_witness:
  "(\<exists>p. fst (resourceOpensearchSaDetectorSearch lib ''abc123''
              (cluster [Inr total_without_hits]) []) = Panic p) \<and>
   (\<exists>p. fst (resourceOpensearchSaDetectorRuleGet lib ''r1''
              (cluster [Inr total_without_hits]) []) = Panic p) \<and>
   \<not> (\<exists>p. fst (resourceOpensearchSaDetectorSearch lib ''abc123''
              (cluster [Inr zero_hits]) []) = Panic p)"
proof -
  note t = Hits_index_in_bounds [where X = lib and h = "[]"]
  from t [where ID = "''abc123''" and m = "cluster [Inr total_without_hits]"
      and body = total_without_hits and sr = "\<lparr>Hits_Total_Value = 1, Hits_Hits = []\<rparr>"]
    detector_sent_abc123 [of "[Inr total_without_hits]"] cluster_first lib_envelopes(1)
  have 1: "\<exists>p. fst (resourceOpensearchSaDetectorSearch lib ''abc123''
              (cluster [Inr total_without_hits]) []) = Panic p"
    by simp
  from t [where ID = "''r1''" and m = "cluster [Inr total_without_hits]"
      and body = total_without_hits and sr = "\<lparr>Hits_Total_Value = 1, Hits_Hits = []\<rparr>"]
    rule_sent_r1 [of "[Inr total_without_hits]"] cluster_first lib_envelopes(1)
  have 2: "\<exists>p. fst (resourceOpensearchSaDetectorRuleGet lib ''r1''
              (cluster [Inr total_without_hits]) []) = Panic p"
    by simp
  from t [where ID = "''abc123''" and m = "cluster [Inr zero_hits]"
      and body = zero_hits and sr = "\<lparr>Hits_Total_Value = 0, Hits_Hits = []\<rparr>"]
    detector_sent_abc123 [of "[Inr zero_hits]"] cluster_first lib_envelopes(2)
  have 3: "\<not> (\<exists>p. fst (resourceOpensearchSaDetectorSearch lib ''abc123''
              (cluster [Inr zero_hits]) []) = Panic p)"
    by simp
  from 1 2 3 show ?thesis by simp
qed

subsection \<open>Paths\<close>

lemma Expand_detector:
  "uritemplates_Expand ''/_plugins/_security_analytics/detectors/{id}'' [(''id'', i)] =
     Inr (''/_plugins/_security_analytics/detectors/'' @ escape i)"
  by (simp add: uritemplates_Expand_def validname_def)

lemma Expand_rule_create:
  "uritemplates_Expand ''/_plugins/_security_analytics/rules?category={category}''
     [(''category'', c)] =
     Inr (''/_plugins/_security_analytics/rules?category='' @ escape c)"
  by (simp add: uritemplates_Expand_def validname_def)

lemma Expand_rule_update:
  "uritemplates_Expand ''/_plugins/_security_analytics/rules/{id}?category={category}&forced=true''
     [(''id'', i), (''category'', c)] =
     Inr (''/_plugins/_security_analytics/rules/'' @ escape i @ ''?category='' @ escape c @
          ''&forced=true'')"
  by (simp add: uritemplates_Expand_def validname_def)

lemma Expand_rule_delete:
  "uritemplates_Expand ''/_plugins/_security_analytics/rules/{id}?forced=true'' [(''id'', i)] =
     Inr (''/_plugins/_security_analytics/rules/'' @ escape i @ ''?forced=true'')"
  by (simp add: uritemplates_Expand_def validname_def)

lemma escape_unreserved: "list_all unreserved s \<Longrightarrow> escape s = s"
  by (induction s) (simp_all add: escape_def)

lemma escape_Nil [simp]: "escape [] = []"
  by (simp add: escape_def)

subsection \<open>What the write operations send\<close>

lemma post_detector_sent:
  "snd (resourceOpensearchPostSaDetector X d m h) =
     (case getClient m h of
        Some _ \<Rightarrow> h
      | None \<Rightarrow> h @ [\<lparr>Method = ''POST'', Path = ''/_plugins/_security_analytics/detectors'',
                       Body = Get ''body'' d, ContentType = []\<rparr>])"
  by (simp add: resourceOpensearchPostSaDetector_def Let_def split: sum.split option.split)

lemma put_detector_sent:
  "snd (resourceOpensearchPutSaDetector X d m h) =
     (case getClient m h of
        Some _ \<Rightarrow> h
      | None \<Rightarrow> h @ [\<lparr>Method = ''PUT'',
                       Path = ''/_plugins/_security_analytics/detectors/'' @ escape (Id d),
                       Body = Get ''body'' d, ContentType = []\<rparr>])"
  by (simp add: resourceOpensearchPutSaDetector_def Expand_detector Let_def
      split: sum.split option.split)

lemma post_rule_sent:
  "snd (resourceOpensearchPostSaDetectorRule X d m h) =
     (case getClient m h of
        Some _ \<Rightarrow> h
      | None \<Rightarrow> h @ [\<lparr>Method = ''POST'',
                       Path = ''/_plugins/_security_analytics/rules?category='' @
                              escape (Get ''category'' d),
                       Body = Get ''body'' d, ContentType = ''application/json''\<rparr>])"
  by (simp add: resourceOpensearchPostSaDetectorRule_def Expand_rule_create Let_def
      split: sum.split option.split)

lemma put_rule_sent:
  "snd (resourceOpensearchPutSaDetectorRule X d m h) =
     (case getClient m h of
        Some _ \<Rightarrow> h
      | None \<Rightarrow> h @ [\<lparr>Method = ''PUT'',
                       Path = ''/_plugins/_security_analytics/rules/'' @ escape (Id d) @
                              ''?category='' @ escape (Get ''category'' d) @ ''&forced=true'',
                       Body = Get ''body'' d, ContentType = ''application/json''\<rparr>])"
  by (simp add: resourceOpensearchPutSaDetectorRule_def Expand_rule_update Let_def
      split: sum.split option.split)

lemma delete_rule_sent:
  "snd (resourceOpensearchSaDetectorRuleDelete d m h) =
     (case getClient m h of
        Some _ \<Rightarrow> h
      | None \<Rightarrow> h @ [\<lparr>Method = ''DELETE'',
                       Path = ''/_plugins/_security_analytics/rules/'' @ escape (Id d) @
                              ''?forced=true'',
                       Body = [], ContentType = []\<rparr>])"
  by (simp add: resourceOpensearchSaDetectorRuleDelete_def Expand_rule_delete Let_def
      split: sum.split option.split)

subsection \<open>Read-back only adds to what was sent\<close>

lemma rule_read_sent:
  "snd (resourceOpensearchSaDetectorRuleRead X d m h) =
     snd (resourceOpensearchSaDetectorRuleGet X (Id d) m h)"
  by (simp add: resourceOpensearchSaDetectorRuleRead_def split: prod.split exec.split sum.split)

lemma rule_read_extends: "prefix h (snd (resourceOpensearchSaDetectorRuleRead X d m h))"
  by (simp add: rule_read_sent rule_search_sent split: sum.split option.split)

lemma rule_update_extends:
  "prefix (snd (resourceOpensearchPutSaDetectorRule X d m h))
     (snd (resourceOpensearchSaDetectorRuleUpdate X d m h))"
  by (simp add: resourceOpensearchSaDetectorRuleUpdate_def rule_read_extends
      split: prod.split sum.split)

lemma rule_create_extends:
  "prefix (snd (resourceOpensearchPostSaDetectorRule X d m h))
     (snd (resourceOpensearchSaDetectorRuleCreate X d m h))"
  by (simp add: resourceOpensearchSaDetectorRuleCreate_def rule_read_extends
      split: prod.split sum.split)

subsection \<open>Requests of the rule resource\<close>

text \<open>
  C4 (amended). With a client at hand, the rule's Update sends, first of all, a PUT to
  \<open>/_plugins/_security_analytics/rules/{id}?category={category}&forced=true\<close>, Delete a
  DELETE to \<open>/_plugins/_security_analytics/rules/{id}?forced=true\<close>, and Create, first of
  all, a POST to \<open>/_plugins/_security_analytics/rules?category={category}\<close>. The ID and
  the configured category stand in the path percent-encoded (every byte outside
  \<open>A-Z a-z 0-9 - . _ ~\<close> as \<open>%XX\<close>): verbatim whenever they hold no such byte, as for
  the category \<open>cloudtrail\<close>, whose Create path is exactly
  \<open>/_plugins/_security_analytics/rules?category=cloudtrail\<close>.
\<close>

theorem rule_request_paths:
  assumes "getClient m h = None"
  shows "prefix
           (h @ [\<lparr>Method = ''PUT'',
                   Path = ''/_plugins/_security_analytics/rules/'' @ escape (Id d) @
                          ''?category='' @ escape (Get ''category'' d) @ ''&forced=true'',
                   Body = Get ''body'' d, ContentType = ''application/json''\<rparr>])
           (snd (resourceOpensearchSaDetectorRuleUpdate X d m h)) \<and>
         snd (resourceOpensearchSaDetectorRuleDelete d m h) =
           h @ [\<lparr>Method = ''DELETE'',
                  Path = ''/_plugins/_security_analytics/rules/'' @ escape (Id d) @ ''?forced=true'',
                  Body = [], ContentType = []\<rparr>] \<and>
         prefix
           (h @ [\<lparr>Method = ''POST'',
                   Path = ''/_plugins/_security_analytics/rules?category='' @
                          escape (Get ''category'' d),
                   Body = Get ''body'' d, ContentType = ''application/json''\<rparr>])
           (snd (resourceOpensearchSaDetectorRuleCreate X d m h)) \<and>
         (list_all unreserved (Get ''category'' d) \<longrightarrow>
            escape (Get ''category'' d) = Get ''category'' d) \<and>
         (Get ''category'' d = ''cloudtrail'' \<longrightarrow>
            snd (resourceOpensearchPostSaDetectorRule X d m h) =
              h @ [\<lparr>Method = ''POST'',
                     Path = ''/_plugins/_security_analytics/rules?category=cloudtrail'',
                     Body = Get ''body'' d, ContentType = ''application/json''\<rparr>])"
proof -
  have "escape ''cloudtrail'' = ''cloudtrail''"
    by (rule escape_unreserved) (simp add: unreserved_def)
  with assms rule_update_extends [of X d m h] rule_create_extends [of X d m h]
  show ?thesis
    by (simp add: put_rule_sent delete_rule_sent post_rule_sent escape_unreserved)
qed

lemma cloudtrail_unreserved: "list_all unreserved ''cloudtrail''"
  by (simp add: unreserved_def)

theorem rule_request_paths_witness:
  "snd (resourceOpensearchPostSaDetectorRule lib new_rule (cluster [Inr rule_created]) []) =
     [\<lparr>Method = ''POST'', Path = ''/_plugins/_security_analytics/rules?category=cloudtrail'',
       Body = ''title: t'', ContentType = ''application/json''\<rparr>] \<and>
   prefix
     [\<lparr>Method = ''PUT'',
       Path = ''/_plugins/_security_analytics/rules/r1?category=cloudtrail&forced=true'',
       Body = ''title: old'', ContentType = ''application/json''\<rparr>]
     (snd (resourceOpensearchSaDetectorRuleUpdate lib known_rule (cluster [Inr rule_created]) [])) \<and>
   snd (resourceOpensearchSaDetectorRuleDelete known_rule (cluster [Inr []]) []) =
     [\<lparr>Method = ''DELETE'', Path = ''/_plugins/_security_analytics/rules/r1?forced=true'',
       Body = [], ContentType = []\<rparr>]"
proof -
  have c: "Get ''category'' new_rule = ''cloudtrail''" "Get ''category'' known_rule = ''cloudtrail''"
    "Get ''body'' new_rule = ''title: t''" "Get ''body'' known_rule = ''title: old''"
    "Id known_rule = ''r1''"
    by (simp_all add: Get_def new_rule_def known_rule_def)
  have r1: "escape ''r1'' = ''r1''"
    by (rule escape_unreserved) (simp add: unreserved_def)
  from rule_request_paths [where m = "cluster [Inr rule_created]" and h = "[]"
      and X = lib and d = new_rule, OF cluster_client]
    rule_request_paths [where m = "cluster [Inr rule_created]" and h = "[]"
      and X = lib and d = known_rule, OF cluster_client]
    rule_request_paths [where m = "cluster [Inr []]" and h = "[]"
      and X = lib and d = known_rule, OF cluster_client]
    cloudtrail_unreserved
  show ?thesis by (simp add: c r1)
qed

text \<open>
  The claim as stated fails for a category with a blank: the path holds \<open>cloud%20trail\<close>
  and nowhere the configured text.
\<close>

theorem category_verbatim_counterexample:
  "snd (resourceOpensearchPostSaDetectorRule lib
          (new_rule\<lparr>attrs := (attrs new_rule)(''category'' \<mapsto> ''cloud trail'')\<rparr>)
          (cluster [Inr rule_created]) []) =
     [\<lparr>Method = ''POST'', Path = ''/_plugins/_security_analytics/rules?category=cloud%20trail'',
       Body = ''title: t'', ContentType = ''application/json''\<rparr>] \<and>
   \<not> sublist ''cloud trail'' ''/_plugins/_security_analytics/rules?category=cloud%20trail''"
  by (simp add: post_rule_sent cluster_client Get_def new_rule_def escape_def unreserved_def
      pctEncode_def hex_def sublist_Cons_right)

subsection \<open>Hits\<close>

text \<open>
  C5 (amended). On a hit (non-zero total, a first element in the hits array, a source
  that decodes to an object) both lookups take the ID and the version of the first hit
  and unmarshal its whole \<open>_source\<close>, one level below the hit, into a generic object:
  the rule lookup returns that object as it is, the detector lookup returns it after
  \<open>normalizeSaDetector\<close>. Neither lookup selects a \<open>detector\<close> sub-field of the source.
\<close>

theorem lookup_hit:
  "(snd (resourceOpensearchSaDetectorSearch X ID m h) = h @ [opts] \<and>
    PerformRequest m h opts = Inr body \<and> Unmarshal_querySearchResult X body = Inr sr \<and>
    Hits_Total_Value sr \<noteq> 0 \<and> Hits_Hits sr = hit # rest \<and>
    Unmarshal_object X (Source hit) = Inr obj \<longrightarrow>
      fst (resourceOpensearchSaDetectorSearch X ID m h) =
        Done (Inr \<lparr>det_Version = hit_Version hit, det_ID = hit_ID hit,
                   Detector = normalizeSaDetector X obj\<rparr>)) \<and>
   (snd (resourceOpensearchSaDetectorRuleGet X ID m h) = h @ [opts] \<and>
    PerformRequest m h opts = Inr body \<and> Unmarshal_querySearchResult X body = Inr sr \<and>
    Hits_Total_Value sr \<noteq> 0 \<and> Hits_Hits sr = hit # rest \<and>
    Unmarshal_object X (Source hit) = Inr obj \<longrightarrow>
      fst (resourceOpensearchSaDetectorRuleGet X ID m h) =
        Done (Inr \<lparr>rule_Version = hit_Version hit, rule_ID = hit_ID hit, Rule = obj\<rparr>))"
  by (simp add: detector_search_run rule_search_run)

lemma detector_search_hit:
  \<open>resourceOpensearchSaDetectorSearch lib ''abc123'' (cluster (Inr detector_hit # answers)) [] =
     (Done (Inr \<lparr>det_Version = 1, det_ID = ''abc123'',
                 Detector = [(''type'', JString ''sigma''), (''name'', JString ''t1'')]\<rparr>),
      [\<lparr>Method = ''POST'', Path = ''/_plugins/_security_analytics/detectors/_search'',
        Body = ''{"query":{"ids":{"values":["abc123"]}},"size":1}'',
        ContentType = ''application/json''\<rparr>])\<close>
  by (simp add: lookup_defs lib_Marshal cluster_client cluster_first)
     (simp add: lib_def zero_hits_def total_without_hits_def detector_hit_def)

lemma rule_search_hit:
  \<open>resourceOpensearchSaDetectorRuleGet lib ''r1'' (cluster (Inr rule_hit # answers)) [] =
     (Done (Inr \<lparr>rule_Version = 1, rule_ID = ''r1'',
                 Rule = [(''category'', JString ''cloudtrail''), (''rule'', JString ''title: t'')]\<rparr>),
      [\<lparr>Method = ''POST'',
        Path = ''/_plugins/_security_analytics/rules/_search?pre_packaged=false'',
        Body = ''{"query":{"ids":{"values":["r1"]}},"size":1}'',
        ContentType = ''application/json''\<rparr>])\<close>
  by (simp add: lookup_defs lib_Marshal cluster_client cluster_first)
     (simp add: lib_def zero_hits_def total_without_hits_def detector_hit_def nested_hit_def
       rule_hit_def)

lemma lib_hits:
  \<open>Unmarshal_querySearchResult lib detector_hit =
     Inr \<lparr>Hits_Total_Value = 1,
          Hits_Hits = [\<lparr>hit_ID = ''abc123'', hit_Version = 1,
                        Source = ''{"type":"sigma","name":"t1"}''\<rparr>]\<rparr>\<close>
  \<open>Unmarshal_querySearchResult lib rule_hit =
     Inr \<lparr>Hits_Total_Value = 1,
          Hits_Hits = [\<lparr>hit_ID = ''r1'', hit_Version = 1,
                        Source = ''{"category":"cloudtrail","rule":"title: t"}''\<rparr>]\<rparr>\<close>
  \<open>Unmarshal_object lib ''{"type":"sigma","name":"t1"}'' =
     Inr [(''type'', JString ''sigma''), (''name'', JString ''t1'')]\<close>
  \<open>Unmarshal_object lib ''{"category":"cloudtrail","rule":"title: t"}'' =
     Inr [(''category'', JString ''cloudtrail''), (''rule'', JString ''title: t'')]\<close>
  \<open>normalizeSaDetector lib = (\<lambda>obj. obj)\<close>
  by (simp_all add: lib_def zero_hits_def total_without_hits_def detector_hit_def nested_hit_def
      rule_hit_def)

theorem lookup_hit_witness:
  \<open>fst (resourceOpensearchSaDetectorSearch lib ''abc123'' (cluster [Inr detector_hit]) []) =
     Done (Inr \<lparr>det_Version = 1, det_ID = ''abc123'',
                Detector = [(''type'', JString ''sigma''), (''name'', JString ''t1'')]\<rparr>) \<and>
   fst (resourceOpensearchSaDetectorRuleGet lib ''r1'' (cluster [Inr rule_hit]) []) =
     Done (Inr \<lparr>rule_Version = 1, rule_ID = ''r1'',
                Rule = [(''category'', JString ''cloudtrail''), (''rule'', JString ''title: t'')]\<rparr>)\<close>
proof -
  note t = lookup_hit [where X = lib and h = "[]" and rest = "[]"]
  from t [where ID = "''abc123''" and m = "cluster [Inr detector_hit]" and body = detector_hit
      and opts = \<open>\<lparr>Method = ''POST'', Path = ''/_plugins/_security_analytics/detectors/_search'',
                    Body = ''{"query":{"ids":{"values":["abc123"]}},"size":1}'',
                    ContentType = ''application/json''\<rparr>\<close>
      and hit = \<open>\<lparr>hit_ID = ''abc123'', hit_Version = 1, Source = ''{"type":"sigma","name":"t1"}''\<rparr>\<close>
      and sr = \<open>\<lparr>Hits_Total_Value = 1,
                  Hits_Hits = [\<lparr>hit_ID = ''abc123'', hit_Version = 1,
                                Source = ''{"type":"sigma","name":"t1"}''\<rparr>]\<rparr>\<close>
      and obj = "[(''type'', JString ''sigma''), (''name'', JString ''t1'')]"]
    detector_sent_abc123 [of "[Inr detector_hit]"] cluster_first lib_hits(1,3,5)
  have 1: \<open>fst (resourceOpensearchSaDetectorSearch lib ''abc123'' (cluster [Inr detector_hit]) []) =
     Done (Inr \<lparr>det_Version = 1, det_ID = ''abc123'',
                Detector = [(''type'', JString ''sigma''), (''name'', JString ''t1'')]\<rparr>)\<close>
    by simp
  from t [where ID = "''r1''" and m = "cluster [Inr rule_hit]" and body = rule_hit
      and opts = \<open>\<lparr>Method = ''POST'',
                    Path = ''/_plugins/_security_analytics/rules/_search?pre_packaged=false'',
                    Body = ''{"query":{"ids":{"values":["r1"]}},"size":1}'',
                    ContentType = ''application/json''\<rparr>\<close>
      and hit = \<open>\<lparr>hit_ID = ''r1'', hit_Version = 1,
                    Source = ''{"category":"cloudtrail","rule":"title: t"}''\<rparr>\<close>
      and sr = \<open>\<lparr>Hits_Total_Value = 1,
                  Hits_Hits = [\<lparr>hit_ID = ''r1'', hit_Version = 1,
                                Source = ''{"category":"cloudtrail","rule":"title: t"}''\<rparr>]\<rparr>\<close>
      and obj = "[(''category'', JString ''cloudtrail''), (''rule'', JString ''title: t'')]"]
    rule_sent_r1 [of "[Inr rule_hit]"] cluster_first lib_hits(2,4)
  have 2: \<open>fst (resourceOpensearchSaDetectorRuleGet lib ''r1'' (cluster [Inr rule_hit]) []) =
     Done (Inr \<lparr>rule_Version = 1, rule_ID = ''r1'',
                Rule = [(''category'', JString ''cloudtrail''), (''rule'', JString ''title: t'')]\<rparr>)\<close>
    by simp
  from 1 2 show ?thesis by simp
qed

text \<open>
  The claim as stated fails on a source with a \<open>detector\<close> member: the detector lookup
  returns the whole source and not that member.
\<close>

theorem detector_source_counterexample:
  \<open>fst (resourceOpensearchSaDetectorSearch lib ''abc123'' (cluster [Inr nested_hit]) []) =
     Done (Inr \<lparr>det_Version = 1, det_ID = ''abc123'',
                Detector = [(''name'', JString ''t1''),
                            (''detector'', JObject [(''name'', JString ''inner'')])]\<rparr>) \<and>
   index [(''name'', JString ''t1''), (''detector'', JObject [(''name'', JString ''inner'')])]
     ''detector'' = JObject [(''name'', JString ''inner'')] \<and>
   [(''name'', JString ''t1''), (''detector'', JObject [(''name'', JString ''inner'')])] \<noteq>
     [(''name'', JString ''inner'')]\<close>
  by (simp add: lookup_defs lib_Marshal cluster_client cluster_first index_def)
     (simp add: lib_def zero_hits_def total_without_hits_def detector_hit_def nested_hit_def)

subsection \<open>NotFound and the other errors of a lookup\<close>





text \<open>
  This does not hang on the wording chosen for the predicate: whatever predicate accepts
  the zero-hit error of an ID accepts a client error of the same text, and the lookup
  hands that error on.
\<close>

lemma any_NotFound_predicate_accepts_a_client_error:
  assumes "json_Marshal X (query ID) = Inr q"
    and "P (Err (''no search results found for ID: '' @ ID))"
  shows "\<exists>e. fst (resourceOpensearchSaDetectorSearch X ID (cluster [Inl e]) []) = Done (Inl e) \<and>
             fst (resourceOpensearchSaDetectorRuleGet X ID (cluster [Inl e]) []) = Done (Inl e) \<and>
             P e"
  using assms
  by (intro exI [of _ "Err (''no search results found for ID: '' @ ID)"])
     (simp add: lookup_defs cluster_client cluster_first)

subsection \<open>How a write request goes on\<close>

lemma post_detector_run:
  assumes "snd (resourceOpensearchPostSaDetector X d m h) = h @ [opts]"
  shows "fst (resourceOpensearchPostSaDetector X d m h) =
     (case PerformRequest m h opts of
        Inl err \<Rightarrow> Inl err
      | Inr body \<Rightarrow>
     (case Unmarshal_SaDetectorResponse X body of
        Inl err \<Rightarrow>
          Inl (Err (''error unmarshalling detector body: '' @ Error err @ '': '' @ fmt_bytes body))
      | Inr response \<Rightarrow>
          Inr (response\<lparr>Detector := normalizeSaDetector X (Detector response)\<rparr>)))"
proof -
  from assms have c: "getClient m h = None"
    and opts: "opts = \<lparr>Method = ''POST'', Path = ''/_plugins/_security_analytics/detectors'',
                        Body = Get ''body'' d, ContentType = []\<rparr>"
    by (auto simp: post_detector_sent split: option.splits)
  show ?thesis
    by (simp add: resourceOpensearchPostSaDetector_def Let_def c opts split: sum.split)
qed

lemma put_detector_run:
  assumes "snd (resourceOpensearchPutSaDetector X d m h) = h @ [opts]"
  shows "fst (resourceOpensearchPutSaDetector X d m h) =
     (case PerformRequest m h opts of
        Inl err \<Rightarrow> Inl err
      | Inr body \<Rightarrow>
     (case Unmarshal_SaDetectorResponse X body of
        Inl err \<Rightarrow>
          Inl (Err (''error unmarshalling detector body: '' @ Error err @ '': '' @ fmt_bytes body))
      | Inr response \<Rightarrow> Inr response))"
proof -
  from assms have c: "getClient m h = None"
    and opts: "opts = \<lparr>Method = ''PUT'',
                        Path = ''/_plugins/_security_analytics/detectors/'' @ escape (Id d),
                        Body = Get ''body'' d, ContentType = []\<rparr>"
    by (auto simp: put_detector_sent split: option.splits)
  show ?thesis
    by (simp add: resourceOpensearchPutSaDetector_def Expand_detector Let_def c opts
        split: sum.split)
qed

lemma post_rule_run:
  assumes "snd (resourceOpensearchPostSaDetectorRule X d m h) = h @ [opts]"
  shows "fst (resourceOpensearchPostSaDetectorRule X d m h) =
     (case PerformRequest m h opts of
        Inl err \<Rightarrow> Inl err
      | Inr body \<Rightarrow>
     (case Unmarshal_SaDetectorRuleResponse X body of
        Inl err \<Rightarrow>
          Inl (Err (''error unmarshalling detector rule body: '' @ Error err @ '': '' @
                    fmt_bytes body))
      | Inr response \<Rightarrow> Inr response))"
proof -
  from assms have c: "getClient m h = None"
    and opts: "opts = \<lparr>Method = ''POST'',
                        Path = ''/_plugins/_security_analytics/rules?category='' @
                               escape (Get ''category'' d),
                        Body = Get ''body'' d, ContentType = ''application/json''\<rparr>"
    by (auto simp: post_rule_sent split: option.splits)
  show ?thesis
    by (simp add: resourceOpensearchPostSaDetectorRule_def Expand_rule_create Let_def c opts
        split: sum.split)
qed

lemma put_rule_run:
  assumes "snd (resourceOpensearchPutSaDetectorRule X d m h) = h @ [opts]"
  shows "fst (resourceOpensearchPutSaDetectorRule X d m h) =
     (case PerformRequest m h opts of
        Inl err \<Rightarrow> Inl err
      | Inr body \<Rightarrow>
     (case Unmarshal_SaDetectorRuleResponse X body of
        Inl err \<Rightarrow>
          Inl (Err (''error unmarshalling detector rule body: '' @ Error err @ '': '' @
                    fmt_bytes body))
      | Inr response \<Rightarrow> Inr response))"
proof -
  from assms have c: "getClient m h = None"
    and opts: "opts = \<lparr>Method = ''PUT'',
                        Path = ''/_plugins/_security_analytics/rules/'' @ escape (Id d) @
                               ''?category='' @ escape (Get ''category'' d) @ ''&forced=true'',
                        Body = Get ''body'' d, ContentType = ''application/json''\<rparr>"
    by (auto simp: put_rule_sent split: option.splits)
  show ?thesis
    by (simp add: resourceOpensearchPutSaDetectorRule_def Expand_rule_update Let_def c opts
        split: sum.split)
qed


subsection \<open>Decode errors\<close>






subsection \<open>Errors while creating and updating\<close>

text \<open>
  C6 (amended). For both resources: when the create request fails (with a transport
  error or any other), Create returns that error and leaves the local state as it was,
  the ID unset; when the update request fails, Update returns the error and leaves the
  local state as it was. When the request succeeded and the read-back lookup fails with
  an error that the NotFound predicate rejects, the error is returned as well; Update
  again leaves the local state as it was, but Create has by then stored the ID the
  server assigned, and it stays stored.
\<close>

theorem write_errors:
  "(resourceOpensearchPostSaDetector X d m h = (Inl err, h') \<longrightarrow>
      resourceOpensearchSaDetectorCreate X d m h = (Done (Some err, d), h')) \<and>
   (resourceOpensearchPutSaDetector X d m h = (Inl err, h') \<longrightarrow>
      resourceOpensearchSaDetectorUpdate X d m h = (Done (Some err, d), h')) \<and>
   (resourceOpensearchPostSaDetectorRule X d m h = (Inl err, h') \<longrightarrow>
      resourceOpensearchSaDetectorRuleCreate X d m h = (Done (Some err, d), h')) \<and>
   (resourceOpensearchPutSaDetectorRule X d m h = (Inl err, h') \<longrightarrow>
      resourceOpensearchSaDetectorRuleUpdate X d m h = (Done (Some err, d), h')) \<and>
   (resourceOpensearchPostSaDetector X d m h = (Inr res, h') \<and>
    resourceOpensearchSaDetectorSearch X (det_ID res) m h' = (Done (Inl err), h'') \<and>
    \<not> IsSearchNotFound X err \<longrightarrow>
      resourceOpensearchSaDetectorCreate X d m h =
        (Done (Some err, d\<lparr>Id := det_ID res\<rparr>), h'')) \<and>
   (resourceOpensearchPutSaDetector X d m h = (Inr res, h') \<and>
    resourceOpensearchSaDetectorSearch X (Id d) m h' = (Done (Inl err), h'') \<and>
    \<not> IsSearchNotFound X err \<longrightarrow>
      resourceOpensearchSaDetectorUpdate X d m h = (Done (Some err, d), h'')) \<and>
   (resourceOpensearchPostSaDetectorRule X d m h = (Inr rres, h') \<and>
    resourceOpensearchSaDetectorRuleGet X (rule_ID rres) m h' = (Done (Inl err), h'') \<and>
    \<not> IsSearchNotFound X err \<longrightarrow>
      resourceOpensearchSaDetectorRuleCreate X d m h =
        (Done (Some err, d\<lparr>Id := rule_ID rres\<rparr>), h'')) \<and>
   (resourceOpensearchPutSaDetectorRule X d m h = (Inr rres, h') \<and>
    resourceOpensearchSaDetectorRuleGet X (Id d) m h' = (Done (Inl err), h'') \<and>
    \<not> IsSearchNotFound X err \<longrightarrow>
      resourceOpensearchSaDetectorRuleUpdate X d m h = (Done (Some err, d), h''))"
  by (simp add: resourceOpensearchSaDetectorCreate_def resourceOpensearchSaDetectorUpdate_def
      resourceOpensearchSaDetectorRuleCreate_def resourceOpensearchSaDetectorRuleUpdate_def
      resourceOpensearchSaDetectorRead_def resourceOpensearchSaDetectorRuleRead_def SetId_def)

text \<open>A transport error is one such error of the request.\<close>

lemma no_client_fails_request:
  assumes "getClient m h = Some err"
  shows "resourceOpensearchPostSaDetector X d m h = (Inl err, h)"
    and "resourceOpensearchPutSaDetector X d m h = (Inl err, h)"
    and "resourceOpensearchPostSaDetectorRule X d m h = (Inl err, h)"
    and "resourceOpensearchPutSaDetectorRule X d m h = (Inl err, h)"
  using assms
  by (simp_all add: resourceOpensearchPostSaDetector_def resourceOpensearchPutSaDetector_def
      resourceOpensearchPostSaDetectorRule_def resourceOpensearchPutSaDetectorRule_def
      Expand_detector Expand_rule_create Expand_rule_update Let_def)

lemma transport_error_fails_request:
  "snd (resourceOpensearchPostSaDetector X d m h) = h @ [opts] \<Longrightarrow>
     PerformRequest m h opts = Inl err \<Longrightarrow>
     resourceOpensearchPostSaDetector X d m h = (Inl err, h @ [opts])"
  "snd (resourceOpensearchPutSaDetector X d m h) = h @ [opts] \<Longrightarrow>
     PerformRequest m h opts = Inl err \<Longrightarrow>
     resourceOpensearchPutSaDetector X d m h = (Inl err, h @ [opts])"
  "snd (resourceOpensearchPostSaDetectorRule X d m h) = h @ [opts] \<Longrightarrow>
     PerformRequest m h opts = Inl err \<Longrightarrow>
     resourceOpensearchPostSaDetectorRule X d m h = (Inl err, h @ [opts])"
  "snd (resourceOpensearchPutSaDetectorRule X d m h) = h @ [opts] \<Longrightarrow>
     PerformRequest m h opts = Inl err \<Longrightarrow>
     resourceOpensearchPutSaDetectorRule X d m h = (Inl err, h @ [opts])"
  by (simp_all add: prod_eq_iff post_detector_run put_detector_run post_rule_run put_rule_run)

lemma detector_created_run:
  \<open>resourceOpensearchPostSaDetector lib new_detector (cluster (Inr detector_created # answers)) [] =
     (Inr \<lparr>det_Version = 1, det_ID = ''abc123'',
           Detector = [(''type'', JString ''sigma''), (''name'', JString ''t1'')]\<rparr>,
      [\<lparr>Method = ''POST'', Path = ''/_plugins/_security_analytics/detectors'',
        Body = ''{"type":"sigma","name":"t1"}'', ContentType = []\<rparr>])\<close>
  by (simp add: resourceOpensearchPostSaDetector_def cluster_client cluster_first Get_def
      new_detector_def)
     (simp add: lib_def detector_created_def)

lemma rule_updated_run:
  \<open>resourceOpensearchPutSaDetectorRule lib known_rule (cluster (Inr rule_created # answers)) [] =
     (Inr \<lparr>rule_Version = 1, rule_ID = ''r1'', Rule = []\<rparr>,
      [\<lparr>Method = ''PUT'',
        Path = ''/_plugins/_security_analytics/rules/r1?category=cloudtrail&forced=true'',
        Body = ''title: old'', ContentType = ''application/json''\<rparr>])\<close>
proof -
  have "escape ''r1'' = ''r1''" "escape ''cloudtrail'' = ''cloudtrail''"
    by (rule escape_unreserved, simp add: unreserved_def)+
  then show ?thesis
    by (simp add: resourceOpensearchPutSaDetectorRule_def Expand_rule_update cluster_client
        cluster_first Get_def known_rule_def)
       (simp add: lib_def rule_created_def)
qed

lemma readback_reset:
  \<open>resourceOpensearchSaDetectorSearch lib ''abc123''
     (cluster [a, Inl (Err ''connection reset by peer'')]) [r] =
     (Done (Inl (Err ''connection reset by peer'')),
      [r, \<lparr>Method = ''POST'', Path = ''/_plugins/_security_analytics/detectors/_search'',
           Body = ''{"query":{"ids":{"values":["abc123"]}},"size":1}'',
           ContentType = ''application/json''\<rparr>])\<close>
  \<open>resourceOpensearchSaDetectorRuleGet lib ''r1''
     (cluster [a, Inl (Err ''connection reset by peer'')]) [r] =
     (Done (Inl (Err ''connection reset by peer'')),
      [r, \<lparr>Method = ''POST'',
           Path = ''/_plugins/_security_analytics/rules/_search?pre_packaged=false'',
           Body = ''{"query":{"ids":{"values":["r1"]}},"size":1}'',
           ContentType = ''application/json''\<rparr>])\<close>
  by (simp_all add: lookup_defs lib_Marshal cluster_client cluster_second)

lemma reset_is_not_NotFound: "\<not> IsSearchNotFound lib (Err ''connection reset by peer'')"
  by (simp add: lib_def IsSearchNotFound_spec_def)

theorem write_errors_witness:
  \<open>resourceOpensearchSaDetectorCreate lib new_detector (no_client (Err ''connection refused'')) [] =
     (Done (Some (Err ''connection refused''), new_detector), []) \<and>
   resourceOpensearchSaDetectorCreate lib new_detector
     (cluster [Inr detector_created, Inl (Err ''connection reset by peer'')]) [] =
     (Done (Some (Err ''connection reset by peer''), new_detector\<lparr>Id := ''abc123''\<rparr>),
      [\<lparr>Method = ''POST'', Path = ''/_plugins/_security_analytics/detectors'',
        Body = ''{"type":"sigma","name":"t1"}'', ContentType = []\<rparr>,
       \<lparr>Method = ''POST'', Path = ''/_plugins/_security_analytics/detectors/_search'',
        Body = ''{"query":{"ids":{"values":["abc123"]}},"size":1}'',
        ContentType = ''application/json''\<rparr>]) \<and>
   resourceOpensearchSaDetectorRuleUpdate lib known_rule
     (cluster [Inr rule_created, Inl (Err ''connection reset by peer'')]) [] =
     (Done (Some (Err ''connection reset by peer''), known_rule),
      [\<lparr>Method = ''PUT'',
        Path = ''/_plugins/_security_analytics/rules/r1?category=cloudtrail&forced=true'',
        Body = ''title: old'', ContentType = ''application/json''\<rparr>,
       \<lparr>Method = ''POST'',
        Path = ''/_plugins/_security_analytics/rules/_search?pre_packaged=false'',
        Body = ''{"query":{"ids":{"values":["r1"]}},"size":1}'',
        ContentType = ''application/json''\<rparr>])\<close>
proof -
  let ?refused = "Err ''connection refused''"
  let ?reset = "Err ''connection reset by peer''"
  let ?post = \<open>\<lparr>Method = ''POST'', Path = ''/_plugins/_security_analytics/detectors'',
                 Body = ''{"type":"sigma","name":"t1"}'', ContentType = []\<rparr>\<close>
  let ?search = \<open>\<lparr>Method = ''POST'', Path = ''/_plugins/_security_analytics/detectors/_search'',
                   Body = ''{"query":{"ids":{"values":["abc123"]}},"size":1}'',
                   ContentType = ''application/json''\<rparr>\<close>
  let ?put = \<open>\<lparr>Method = ''PUT'',
                Path = ''/_plugins/_security_analytics/rules/r1?category=cloudtrail&forced=true'',
                Body = ''title: old'', ContentType = ''application/json''\<rparr>\<close>
  let ?rsearch = \<open>\<lparr>Method = ''POST'',
                    Path = ''/_plugins/_security_analytics/rules/_search?pre_packaged=false'',
                    Body = ''{"query":{"ids":{"values":["r1"]}},"size":1}'',
                    ContentType = ''application/json''\<rparr>\<close>
  let ?res = "\<lparr>det_Version = 1, det_ID = ''abc123'',
               Detector = [(''type'', JString ''sigma''), (''name'', JString ''t1'')]\<rparr>"
  let ?rres = "\<lparr>rule_Version = 1, rule_ID = ''r1'', Rule = []\<rparr>"
  have nc: "getClient (no_client ?refused) [] = Some ?refused"
    by (simp add: no_client_def)
  have idr: "Id known_rule = ''r1''"
    by (simp add: known_rule_def)
  from write_errors [where X = lib and d = new_detector and m = "no_client ?refused"
      and h = "[]" and h' = "[]" and err = ?refused, THEN conjunct1]
    no_client_fails_request(1) [OF nc, of lib new_detector]
  have 1: "resourceOpensearchSaDetectorCreate lib new_detector (no_client ?refused) [] =
     (Done (Some ?refused, new_detector), [])"
    by blast
  from write_errors [where X = lib and d = new_detector and h = "[]"
      and m = "cluster [Inr detector_created, Inl ?reset]" and err = ?reset
      and res = ?res and h' = "[?post]" and h'' = "[?post, ?search]",
      THEN conjunct2, THEN conjunct2, THEN conjunct2, THEN conjunct2, THEN conjunct1]
    detector_created_run [of "[Inl ?reset]"]
    readback_reset(1) [of "Inr detector_created" ?post] reset_is_not_NotFound
  have 2: "resourceOpensearchSaDetectorCreate lib new_detector
      (cluster [Inr detector_created, Inl ?reset]) [] =
     (Done (Some ?reset, new_detector\<lparr>Id := ''abc123''\<rparr>), [?post, ?search])"
    by simp
  from write_errors [where X = lib and d = known_rule and h = "[]"
      and m = "cluster [Inr rule_created, Inl ?reset]" and err = ?reset
      and rres = ?rres and h' = "[?put]" and h'' = "[?put, ?rsearch]",
      THEN conjunct2, THEN conjunct2, THEN conjunct2, THEN conjunct2, THEN conjunct2,
      THEN conjunct2, THEN conjunct2]
    rule_updated_run [of "[Inl ?reset]"]
    readback_reset(2) [of "Inr rule_created" ?put] reset_is_not_NotFound idr
  have 3: "resourceOpensearchSaDetectorRuleUpdate lib known_rule
      (cluster [Inr rule_created, Inl ?reset]) [] =
     (Done (Some ?reset, known_rule), [?put, ?rsearch])"
    by simp
  from 1 2 3 show ?thesis by blast
qed

text \<open>
  The claim as stated fails when the read-back of Create meets a transport error: the
  error is returned, and the local ID, empty before, is the server's \<open>abc123\<close>.
\<close>

theorem Create_readback_counterexample:
  \<open>Id new_detector = [] \<and>
   fst (resourceOpensearchSaDetectorCreate lib new_detector
          (cluster [Inr detector_created, Inl (Err ''connection reset by peer'')]) []) =
     Done (Some (Err ''connection reset by peer''), new_detector\<lparr>Id := ''abc123''\<rparr>) \<and>
   Id (new_detector\<lparr>Id := ''abc123''\<rparr>) = ''abc123''\<close>
  by (simp add: resourceOpensearchSaDetectorCreate_def resourceOpensearchSaDetectorRead_def
      detector_created_run readback_reset reset_is_not_NotFound SetId_def)
     (simp add: new_detector_def)

subsection \<open>What the rule's Read writes\<close>

lemma Set_frame:
  assumes "Set X key v d = (e, d')"
  shows "Id d' = Id d" and "key' \<noteq> key \<Longrightarrow> attrs d' key' = attrs d key'"
  using assms by (cases v; auto simp: Set_def)+

lemma Set_done:
  assumes "Set X key v d = (None, d')"
  shows "v = JString (Get key d') \<or> v = JNull \<and> Get key d' = []"
  using assms by (cases v) (auto simp: Set_def Get_def)

lemma Set_string: "Set X key (JString s) d = (None, d\<lparr>attrs := (attrs d)(key \<mapsto> s)\<rparr>)"
  by (simp add: Set_def)

lemma rule_read_cases:
  "resourceOpensearchSaDetectorRuleRead X d m h =
     (case fst (resourceOpensearchSaDetectorRuleGet X (Id d) m h) of
        Panic p \<Rightarrow> (Panic p, snd (resourceOpensearchSaDetectorRuleGet X (Id d) m h))
      | Done (Inl err) \<Rightarrow>
          if IsSearchNotFound X err
          then (Done (None, SetId [] d), snd (resourceOpensearchSaDetectorRuleGet X (Id d) m h))
          else (Done (Some err, d), snd (resourceOpensearchSaDetectorRuleGet X (Id d) m h))
      | Done (Inr res) \<Rightarrow>
          (Done (Set X ''body'' (index (Rule res) ''rule'') (SetId (rule_ID res) d)),
           snd (resourceOpensearchSaDetectorRuleGet X (Id d) m h)))"
  by (simp add: resourceOpensearchSaDetectorRuleRead_def split: prod.split exec.split sum.split)

text \<open>
  C8. Whenever the rule's Read finds the rule and succeeds, the \<open>body\<close> attribute it
  leaves is the one member \<open>rule\<close> of the object the lookup returned (the rule's text;
  the empty string when the member is missing or null), never the object itself, and
  the ID is the hit's. Read does succeed whenever that member is a string.
\<close>

theorem RuleRead_body:
  "(resourceOpensearchSaDetectorRuleGet X (Id d) m h = (Done (Inr res), h') \<and>
    index (Rule res) ''rule'' = JString s \<longrightarrow>
      resourceOpensearchSaDetectorRuleRead X d m h =
        (Done (None, d\<lparr>Id := rule_ID res, attrs := (attrs d)(''body'' \<mapsto> s)\<rparr>), h')) \<and>
   (resourceOpensearchSaDetectorRuleGet X (Id d) m h = (Done (Inr res), h') \<and>
    resourceOpensearchSaDetectorRuleRead X d m h = (Done (None, d'), h'') \<longrightarrow>
      Id d' = rule_ID res \<and>
      (index (Rule res) ''rule'' = JString (Get ''body'' d') \<or>
       index (Rule res) ''rule'' = JNull \<and> Get ''body'' d' = []))"
proof -
  have a: "resourceOpensearchSaDetectorRuleRead X d m h =
        (Done (None, d\<lparr>Id := rule_ID res, attrs := (attrs d)(''body'' \<mapsto> s)\<rparr>), h')"
    if "resourceOpensearchSaDetectorRuleGet X (Id d) m h = (Done (Inr res), h')"
      and "index (Rule res) ''rule'' = JString s"
    using that by (simp add: rule_read_cases Set_string SetId_def)
  have b: "Id d' = rule_ID res \<and>
      (index (Rule res) ''rule'' = JString (Get ''body'' d') \<or>
       index (Rule res) ''rule'' = JNull \<and> Get ''body'' d' = [])"
    if hit: "resourceOpensearchSaDetectorRuleGet X (Id d) m h = (Done (Inr res), h')"
      and ok: "resourceOpensearchSaDetectorRuleRead X d m h = (Done (None, d'), h'')"
  proof -
    from hit ok
    have set: "Set X ''body'' (index (Rule res) ''rule'') (SetId (rule_ID res) d) = (None, d')"
      by (simp add: rule_read_cases)
    from Set_frame(1) [OF set] have "Id d' = rule_ID res"
      by (simp add: SetId_def)
    with Set_done [OF set] show ?thesis
      by simp
  qed
  from a b show ?thesis by blast
qed

theorem RuleRead_body_witness:
  \<open>resourceOpensearchSaDetectorRuleRead lib known_rule (cluster [Inr rule_hit]) [] =
     (Done (None, known_rule\<lparr>Id := ''r1'', attrs := (attrs known_rule)(''body'' \<mapsto> ''title: t'')\<rparr>),
      [\<lparr>Method = ''POST'',
        Path = ''/_plugins/_security_analytics/rules/_search?pre_packaged=false'',
        Body = ''{"query":{"ids":{"values":["r1"]}},"size":1}'',
        ContentType = ''application/json''\<rparr>])\<close>
proof -
  let ?res = "\<lparr>rule_Version = 1, rule_ID = ''r1'',
               Rule = [(''category'', JString ''cloudtrail''), (''rule'', JString ''title: t'')]\<rparr>"
  let ?h' = \<open>[\<lparr>Method = ''POST'',
        Path = ''/_plugins/_security_analytics/rules/_search?pre_packaged=false'',
        Body = ''{"query":{"ids":{"values":["r1"]}},"size":1}'',
        ContentType = ''application/json''\<rparr>]\<close>
  have hit: "resourceOpensearchSaDetectorRuleGet lib (Id known_rule) (cluster [Inr rule_hit]) [] =
      (Done (Inr ?res), ?h')"
    using rule_search_hit [of "[]"] by (simp add: known_rule_def)
  have field: "index (Rule ?res) ''rule'' = JString ''title: t''"
    by (simp add: index_def)
  from RuleRead_body [where X = lib and d = known_rule and m = "cluster [Inr rule_hit]"
      and h = "[]" and s = "''title: t''" and res = ?res and h' = ?h', THEN conjunct1] hit field
  have "resourceOpensearchSaDetectorRuleRead lib known_rule (cluster [Inr rule_hit]) [] =
      (Done (None, known_rule\<lparr>Id := rule_ID ?res,
                     attrs := (attrs known_rule)(''body'' \<mapsto> ''title: t'')\<rparr>), ?h')"
    by blast
  then show ?thesis by simp
qed

text \<open>
  C10. The rule's Read never writes the \<open>category\<close> attribute: whatever it returns
  (found, NotFound or an error), the category held locally is the one held before, so a
  category changed on the server is not brought into the local state by Read.
\<close>

theorem RuleRead_category:
  assumes "resourceOpensearchSaDetectorRuleRead X d m h = (Done (err, d'), h')"
  shows "attrs d' ''category'' = attrs d ''category'' \<and> Get ''category'' d' = Get ''category'' d"
proof -
  have "attrs d' ''category'' = attrs d ''category''"
  proof (cases "fst (resourceOpensearchSaDetectorRuleGet X (Id d) m h)")
    case (Panic p)
    with assms show ?thesis by (simp add: rule_read_cases)
  next
    case (Done r)
    show ?thesis
    proof (cases r)
      case (Inl e)
      with Done assms show ?thesis
        by (auto simp: rule_read_cases SetId_def split: if_splits)
    next
      case (Inr res)
      with Done assms
      have "Set X ''body'' (index (Rule res) ''rule'') (SetId (rule_ID res) d) = (err, d')"
        by (simp add: rule_read_cases)
      from Set_frame(2) [OF this, of "''category''"] show ?thesis
        by (simp add: SetId_def)
    qed
  qed
  then show ?thesis by (simp add: Get_def)
qed

theorem RuleRead_category_witness:
  "fst (resourceOpensearchSaDetectorRuleRead lib
          (known_rule\<lparr>attrs := (attrs known_rule)(''category'' \<mapsto> ''windows'')\<rparr>)
          (cluster [Inr rule_hit]) []) =
     Done (None, known_rule\<lparr>Id := ''r1'',
                   attrs := (attrs known_rule)(''category'' \<mapsto> ''windows'', ''body'' \<mapsto> ''title: t'')\<rparr>) \<and>
   Get ''category''
     (known_rule\<lparr>Id := ''r1'',
        attrs := (attrs known_rule)(''category'' \<mapsto> ''windows'', ''body'' \<mapsto> ''title: t'')\<rparr>) =
     ''windows''"
proof -
  let ?d = "known_rule\<lparr>attrs := (attrs known_rule)(''category'' \<mapsto> ''windows'')\<rparr>"
  let ?d' = "known_rule\<lparr>Id := ''r1'',
      attrs := (attrs known_rule)(''category'' \<mapsto> ''windows'', ''body'' \<mapsto> ''title: t'')\<rparr>"
  let ?h' = "snd (resourceOpensearchSaDetectorRuleGet lib ''r1'' (cluster [Inr rule_hit]) [])"
  have idr: "Id ?d = ''r1''"
    by (simp add: known_rule_def)
  have run: "resourceOpensearchSaDetectorRuleRead lib ?d (cluster [Inr rule_hit]) [] =
      (Done (None, ?d'), ?h')"
    by (simp add: rule_read_cases idr rule_search_hit Set_string SetId_def index_def)
  from RuleRead_category [OF run] have "Get ''category'' ?d' = Get ''category'' ?d"
    by blast
  moreover have "Get ''category'' ?d = ''windows''"
    by (simp add: Get_def)
  ultimately show ?thesis
    using run by simp
qed

end
